theory Spec2Isabelle
  imports Main "HOL-Library.Word"
begin

section \<open>Errors, requests and the per-request context\<close>

text \<open>
  The repository is a set of route handlers written against the web framework
  \<^verbatim>\<open>github.com/gofiber/fiber/v2\<close>: \<^verbatim>\<open>src/main.go\<close> (the server entry point) and
  \<^verbatim>\<open>src/fiber_test.go\<close> (handlers registered on one shared application value, each
  exercised by a test). The handlers are embedded below as they are written. What they
  call in the framework is embedded next to them, each such definition marked as such.

  A Go \<^verbatim>\<open>error\<close> is an interface value. Two kinds occur: the plain error of
  \<^verbatim>\<open>errors.New(msg)\<close>, which is also how the errors of the standard library and of the
  operating system are seen by the handlers (only their message is ever read), and the
  framework's \<^verbatim>\<open>*fiber.Error\<close>, which carries a status code next to its message.
\<close>

datatype error = ErrorString string | FiberError nat string

fun Error :: "error \<Rightarrow> string" where
  "Error (ErrorString msg) = msg"
| "Error (FiberError code msg) = msg"

text \<open>
  The request as the server has parsed it: method, path (without the query string),
  the query arguments, the header fields and the cookies as key/value pairs in their order
  of appearance, and the body bytes. A header name is written the same way where it is
  stored and where it is looked up (the framework normalises both alike).
\<close>

record Request =
  Method :: string
  Path :: string
  QueryArgs :: "(string \<times> string) list"
  Header :: "(string \<times> string) list"
  Cookie :: "(string \<times> string) list"
  Body :: string

text \<open>
  \<^verbatim>\<open>*fiber.Ctx\<close>: the request, the values of the route parameters of the route that is
  running, and the response under construction (status code and body). A handler mutates
  the context through its pointer; here it returns the updated context. The lines a
  handler prints with \<^verbatim>\<open>fmt.Println\<close> are collected in \<open>stdout\<close>.
\<close>

record Ctx =
  request :: Request
  params :: "(string \<times> string) list"
  statusCode :: nat
  respBody :: string
  stdout :: "string list"

text \<open>
  A handler \<^verbatim>\<open>func(c *fiber.Ctx) error\<close> returns \<^verbatim>\<open>nil\<close> (\<open>None\<close>) or an error,
  and leaves the context changed. Its first argument here is what \<^verbatim>\<open>c.Next()\<close> runs:
  the rest of the route stack.
\<close>

type_synonym Result = "error option \<times> Ctx"

type_synonym Handler = "(Ctx \<Rightarrow> Result) \<Rightarrow> Ctx \<Rightarrow> Result"

section \<open>The framework operations the handlers call\<close>

text \<open>
  Modelled from the spec: the framework's \<^verbatim>\<open>Ctx.SendString\<close> and \<^verbatim>\<open>Ctx.Status\<close>
  are not under \<^verbatim>\<open>src/\<close>. \<open>SendString\<close> sets the response body and returns
  \<^verbatim>\<open>nil\<close>; \<open>Status\<close> sets the response status code.
\<close>

definition SendString :: "Ctx \<Rightarrow> string \<Rightarrow> Result" where
  "SendString c s = (None, c\<lparr>respBody := s\<rparr>)"

definition Status :: "Ctx \<Rightarrow> nat \<Rightarrow> Ctx" where
  "Status c code = c\<lparr>statusCode := code\<rparr>"

definition StatusInternalServerError :: nat where
  "StatusInternalServerError = 500"

definition StatusNotFound :: nat where
  "StatusNotFound = 404"

definition StatusOK :: nat where
  "StatusOK = 200"

text \<open>
  Modelled from the spec: the framework's accessors \<^verbatim>\<open>Ctx.Query\<close>, \<^verbatim>\<open>Ctx.Get\<close>,
  \<^verbatim>\<open>Ctx.Cookies\<close> and \<^verbatim>\<open>Ctx.Params\<close> are not under \<^verbatim>\<open>src/\<close> ("query defaults,
  cookie/header echo"). Each looks the key up (\<open>Peek\<close>: the first value stored under the
  key, the empty string when there is none) and passes the result through the
  framework's helper
  \<^verbatim>\<open>
  func defaultString(value string, defaultValue []string) string {
      if len(value) == 0 && len(defaultValue) > 0 {
          return defaultValue[0]
      }
      return value
  }
  \<close>
  so a default, when one is given, stands in for an empty value as well as for a missing
  key. The variadic \<^verbatim>\<open>defaultValue ...string\<close> is a list.
\<close>

definition Peek :: "(string \<times> string) list \<Rightarrow> string \<Rightarrow> string" where
  "Peek args key = (case map_of args key of None \<Rightarrow> [] | Some v \<Rightarrow> v)"

definition defaultString :: "string \<Rightarrow> string list \<Rightarrow> string" where
  "defaultString val defaultValue =
     (if length val = 0 \<and> length defaultValue > 0 then hd defaultValue else val)"

definition Query :: "Ctx \<Rightarrow> string \<Rightarrow> string list \<Rightarrow> string" where
  "Query c key defaultValue = defaultString (Peek (QueryArgs (request c)) key) defaultValue"

definition Get :: "Ctx \<Rightarrow> string \<Rightarrow> string list \<Rightarrow> string" where
  "Get c key defaultValue = defaultString (Peek (Header (request c)) key) defaultValue"

definition Cookies :: "Ctx \<Rightarrow> string \<Rightarrow> string list \<Rightarrow> string" where
  "Cookies c key defaultValue = defaultString (Peek (Cookie (request c)) key) defaultValue"

definition Params :: "Ctx \<Rightarrow> string \<Rightarrow> string list \<Rightarrow> string" where
  "Params c key defaultValue = defaultString (Peek (params c) key) defaultValue"

section \<open>Routes and dispatch\<close>

text \<open>
  Modelled from the spec: the framework's router is not under \<^verbatim>\<open>src/\<close>. A route
  binds a handler to a method and a path pattern ("a function bound to an HTTP method+path
  pattern by the framework, invoked per matching request"); a middleware route
  (\<open>rUse\<close>) is bound to a path prefix and to every method (\<open>rMethod = ''USE''\<close>).
  A pattern is compared with the request path segment by segment: a segment \<^verbatim>\<open>:name\<close>
  matches any one non-empty segment and binds \<open>name\<close> to it, any other segment matches
  itself. Paths are compared as they are written: the framework's folding of letter case,
  its tolerance of one trailing slash, its wildcard and optional segments, and the
  \<^verbatim>\<open>HEAD\<close> route it registers beside every \<^verbatim>\<open>GET\<close> route are left out. They widen
  what a route matches; no request considered below is affected.
\<close>

record Route =
  rMethod :: string
  rPath :: string
  rUse :: bool
  rHandler :: Handler

fun segments :: "string \<Rightarrow> string list" where
  "segments [] = [[]]"
| "segments (c # cs) =
     (if c = CHR ''/'' then [] # segments cs
      else (case segments cs of [] \<Rightarrow> [[c]] | s # ss \<Rightarrow> (c # s) # ss))"

fun match_segments :: "string list \<Rightarrow> string list \<Rightarrow> (string \<times> string) list option" where
  "match_segments [] [] = Some []"
| "match_segments (p # ps) (s # ss) =
     (case p of
        [] \<Rightarrow> (if s = [] then match_segments ps ss else None)
      | x # name \<Rightarrow>
          (if x = CHR '':''
           then (if s = [] then None
                 else (case match_segments ps ss of None \<Rightarrow> None
                       | Some vs \<Rightarrow> Some ((name, s) # vs)))
           else (if p = s then match_segments ps ss else None)))"
| "match_segments [] (s # ss) = None"
| "match_segments (p # ps) [] = None"

definition HasPrefix :: "string \<Rightarrow> string \<Rightarrow> bool" where
  "HasPrefix s pre = (take (length pre) s = pre)"

definition route_match :: "Route \<Rightarrow> Request \<Rightarrow> (string \<times> string) list option" where
  "route_match r q =
     (if rMethod r \<noteq> ''USE'' \<and> rMethod r \<noteq> Method q then None
      else if rUse r then (if HasPrefix (Path q) (rPath r) then Some [] else None)
      else match_segments (segments (rPath r)) (segments (Path q)))"

text \<open>
  Modelled from the spec: the framework's dispatch loop is not under \<^verbatim>\<open>src/\<close>. The
  routes are tried in the order of their registration; the first one that matches runs, with
  the rest of the stack as its \<^verbatim>\<open>c.Next()\<close>. When no route is left the framework
  answers with its not-found error.
\<close>

primrec app_next :: "Route list \<Rightarrow> Ctx \<Rightarrow> Result" where
  "app_next [] =
     (\<lambda>c. (Some (FiberError StatusNotFound
                (''Cannot '' @ Method (request c) @ '' '' @ Path (request c))), c))"
| "app_next (r # rs) =
     (\<lambda>c. case route_match r (request c) of
             None \<Rightarrow> app_next rs c
           | Some vs \<Rightarrow> rHandler r (app_next rs) (c\<lparr>params := vs\<rparr>))"

text \<open>
  \<^verbatim>\<open>fiber.Config\<close>, with the fields the repository sets: the three timeouts
  (\<^verbatim>\<open>time.Duration\<close>, a signed 64-bit count of nanoseconds), the prefork switch, the
  error handler (\<^verbatim>\<open>nil\<close> when not set) and the template engine (directory and
  extension; \<^verbatim>\<open>nil\<close> when not set). \<^verbatim>\<open>fiber.App\<close> is the configuration and the
  route stack.
\<close>

record Config =
  IdleTimeout :: "64 word"
  WriteTimeout :: "64 word"
  ReadTimeout :: "64 word"
  Prefork :: bool
  cfgErrorHandler :: "(Ctx \<Rightarrow> error \<Rightarrow> Result) option"
  Views :: "(string \<times> string) option"

record App =
  config :: Config
  stack :: "Route list"

text \<open>
  Modelled from the spec: \<^verbatim>\<open>fiber.New\<close>, the zero configuration, the default error
  handler, \<^verbatim>\<open>App.Test\<close> and the framework's request handler are not under
  \<^verbatim>\<open>src/\<close>. A fresh context has status 200 and an empty body. The stack runs; an
  error that comes back goes to the configured error handler ("returning the framework's
  built-in error value from a handler and letting a configured error handler map it"), and
  should that handler fail too, the status becomes 500. The default error handler answers
  with the code of a \<^verbatim>\<open>*fiber.Error\<close>, 500 otherwise, and the error's message.
\<close>

definition Config0 :: Config where
  "Config0 = \<lparr>IdleTimeout = 0, WriteTimeout = 0, ReadTimeout = 0, Prefork = False,
     cfgErrorHandler = None, Views = None\<rparr>"

definition New :: "Config \<Rightarrow> App" where
  "New cfg = \<lparr>config = cfg, stack = []\<rparr>"

fun DefaultErrorHandler :: "Ctx \<Rightarrow> error \<Rightarrow> Result" where
  "DefaultErrorHandler c (FiberError code msg) = SendString (Status c code) msg"
| "DefaultErrorHandler c (ErrorString msg) =
     SendString (Status c StatusInternalServerError) msg"

definition AcquireCtx :: "Request \<Rightarrow> Ctx" where
  "AcquireCtx q =
     \<lparr>request = q, params = [], statusCode = StatusOK, respBody = [], stdout = []\<rparr>"

definition Test :: "App \<Rightarrow> Request \<Rightarrow> Ctx" where
  "Test app q =
     (case app_next (stack app) (AcquireCtx q) of
        (None, c) \<Rightarrow> c
      | (Some err, c) \<Rightarrow>
          (case (case cfgErrorHandler (config app) of
                   None \<Rightarrow> DefaultErrorHandler | Some eh \<Rightarrow> eh) c err of
             (None, c') \<Rightarrow> c'
           | (Some catch, c') \<Rightarrow> Status c' StatusInternalServerError))"

text \<open>
  Modelled from the spec: the registration calls \<^verbatim>\<open>App.Get\<close>, \<^verbatim>\<open>App.Post\<close>,
  \<^verbatim>\<open>App.Use\<close>, \<^verbatim>\<open>App.Static\<close> and \<^verbatim>\<open>App.Group\<close> with \<^verbatim>\<open>Group.Get\<close> are not
  under \<^verbatim>\<open>src/\<close>. Each appends a route to the stack. A static route serves \<^verbatim>\<open>GET\<close>
  under a path prefix. A group registers under its prefix joined with the path by the
  framework's
  \<^verbatim>\<open>
  func getGroupPath(prefix, path string) string {
      if len(path) == 0 { return prefix }
      if path[0] != '/' { path = "/" + path }
      return utils.TrimRight(prefix, '/') + path
  }
  \<close>
\<close>

definition addRoute :: "Route \<Rightarrow> App \<Rightarrow> App" where
  "addRoute r app = app\<lparr>stack := stack app @ [r]\<rparr>"

definition app_Get :: "string \<Rightarrow> Handler \<Rightarrow> App \<Rightarrow> App" where
  "app_Get path h =
     addRoute \<lparr>rMethod = ''GET'', rPath = path, rUse = False, rHandler = h\<rparr>"

definition app_Post :: "string \<Rightarrow> Handler \<Rightarrow> App \<Rightarrow> App" where
  "app_Post path h =
     addRoute \<lparr>rMethod = ''POST'', rPath = path, rUse = False, rHandler = h\<rparr>"

definition app_Use :: "string \<Rightarrow> Handler \<Rightarrow> App \<Rightarrow> App" where
  "app_Use prefix h =
     addRoute \<lparr>rMethod = ''USE'', rPath = prefix, rUse = True, rHandler = h\<rparr>"

definition app_Static :: "string \<Rightarrow> Handler \<Rightarrow> App \<Rightarrow> App" where
  "app_Static prefix h =
     addRoute \<lparr>rMethod = ''GET'', rPath = prefix, rUse = True, rHandler = h\<rparr>"

definition TrimRight :: "string \<Rightarrow> char \<Rightarrow> string" where
  "TrimRight s cutset = rev (dropWhile (\<lambda>c. c = cutset) (rev s))"

definition getGroupPath :: "string \<Rightarrow> string \<Rightarrow> string" where
  "getGroupPath prefix path =
     (if length path = 0 then prefix
      else TrimRight prefix (CHR ''/'')
           @ (if hd path \<noteq> CHR ''/'' then CHR ''/'' # path else path))"

record Group =
  Prefix :: string

definition app_Group :: "string \<Rightarrow> Group" where
  "app_Group prefix = \<lparr>Prefix = prefix\<rparr>"

definition grp_Get :: "Group \<Rightarrow> string \<Rightarrow> Handler \<Rightarrow> App \<Rightarrow> App" where
  "grp_Get grp path h = app_Get (getGroupPath (Prefix grp) path) h"

section \<open>The shared application of the tests\<close>

text \<open>
  The two payload structs of \<^verbatim>\<open>fiber_test.go\<close>, and the part of
  \<^verbatim>\<open>multipart.FileHeader\<close> the upload handler reads.
\<close>

record LoginReq =
  Username :: string
  Password :: string

record RegisterReq =
  Username :: string
  Password :: string
  Name :: string

record FileHeader =
  Filename :: string

text \<open>
  What the handlers obtain from the standard library, the operating system and the
  framework's decoders, and only pass along, is a parameter of the application:
  \<^item> \<open>FormValue\<close>, \<open>FormFile\<close>: the framework's form and multipart readers, on the request;
  \<^item> \<open>SaveFile\<close>: writing an uploaded file to a path (\<open>None\<close> is success);
  \<^item> \<open>json_Unmarshal\<close>: \<^verbatim>\<open>encoding/json.Unmarshal\<close> of a body into a fresh
    \<^verbatim>\<open>LoginReq\<close>;
  \<^item> \<open>JSONDecoder\<close>, \<open>FormDecoder\<close>: what \<^verbatim>\<open>Ctx.BodyParser\<close> runs on a fresh
    \<^verbatim>\<open>RegisterReq\<close> for a JSON body and for a URL-encoded form body, where the body is
    not of the form embedded below;
  \<^item> \<open>OtherDecoder\<close>: what it does for any other content type (where it may also refuse
    the body);
  \<^item> \<open>JSON\<close>, \<open>Download\<close>, \<open>Render\<close>, \<open>StaticHandler\<close>: the framework's JSON response,
    file download, template rendering and static file serving.
\<close>

record Env =
  FormValue :: "Request \<Rightarrow> string \<Rightarrow> string"
  FormFile :: "Request \<Rightarrow> string \<Rightarrow> error + FileHeader"
  SaveFile :: "FileHeader \<Rightarrow> string \<Rightarrow> error option"
  json_Unmarshal :: "string \<Rightarrow> error + LoginReq"
  JSONDecoder :: "string \<Rightarrow> error + RegisterReq"
  FormDecoder :: "string \<Rightarrow> error + RegisterReq"
  OtherDecoder :: "Request \<Rightarrow> error + RegisterReq"
  JSON :: "Ctx \<Rightarrow> (string \<times> string) list \<Rightarrow> Result"
  Download :: "Ctx \<Rightarrow> string \<Rightarrow> string list \<Rightarrow> Result"
  Render :: "Ctx \<Rightarrow> string \<Rightarrow> (string \<times> string) list \<Rightarrow> Result"
  StaticHandler :: "string \<Rightarrow> Handler"

text \<open>
  Modelled from the spec: the JSON decoder behind \<^verbatim>\<open>Ctx.BodyParser\<close>
  (\<^verbatim>\<open>encoding/json.Unmarshal\<close> into a \<^verbatim>\<open>*RegisterReq\<close>) is not under \<^verbatim>\<open>src/\<close>
  ("framework-provided reflection-based decoding of request bodies into typed structures").
  It is embedded for the bodies the tests send and their like: a JSON object written in
  ASCII without \<^verbatim>\<open>\u\<close> escapes, whose members are strings, numbers, \<^verbatim>\<open>true\<close>,
  \<^verbatim>\<open>false\<close> or \<^verbatim>\<open>null\<close>. The scanner reads one character at a time, as the
  library's does, and collects the members in their order; it gives no result for any other
  body (invalid JSON, another top-level value, nested objects or arrays, \<^verbatim>\<open>\u\<close>
  escapes, control characters, bytes beyond ASCII).
\<close>

datatype JSON = JString string | JNumber string | JBool bool | JNull

type_synonym members = "(string \<times> JSON) list"

datatype numstate =
  StateNeg | State0 | State1 | StateDot | StateDot0 | StateE | StateESign | StateE0

datatype scanstate =
    BeginObject
  | FirstKey
  | NextKey members
  | InKey members string
  | InKeyEsc members string
  | AfterKey members string
  | BeginValue members string
  | InString members string string
  | InStringEsc members string string
  | InNumber numstate members string string
  | InLiteral members string string JSON
  | EndValue members
  | EndTop members

definition isSpace :: "char \<Rightarrow> bool" where
  "isSpace c = (c = CHR '' '' \<or> c = CHR 0x09 \<or> c = CHR 0x0A \<or> c = CHR 0x0D)"

definition plainChar :: "char \<Rightarrow> bool" where
  \<comment> \<open>a character that stands for itself inside a string: ASCII from the space on, but
      the double quote and the backslash\<close>
  "plainChar c = (32 \<le> (of_char c :: nat) \<and> (of_char c :: nat) \<le> 127
     \<and> c \<noteq> CHR 0x22 \<and> c \<noteq> CHR 0x5C)"

definition isDigit :: "char \<Rightarrow> bool" where
  "isDigit c = (48 \<le> (of_char c :: nat) \<and> (of_char c :: nat) \<le> 57)"

definition unescape :: "char \<Rightarrow> char option" where
  \<comment> \<open>the character after a backslash; \<^verbatim>\<open>\u\<close> is not embedded\<close>
  "unescape c =
     (if c = CHR 0x22 \<or> c = CHR 0x5C \<or> c = CHR ''/'' then Some c
      else if c = CHR ''b'' then Some (CHR 0x08)
      else if c = CHR ''f'' then Some (CHR 0x0C)
      else if c = CHR ''n'' then Some (CHR 0x0A)
      else if c = CHR ''r'' then Some (CHR 0x0D)
      else if c = CHR ''t'' then Some (CHR 0x09)
      else None)"

fun numStep :: "numstate \<Rightarrow> char \<Rightarrow> numstate option" where
  "numStep StateNeg c =
     (if c = CHR ''0'' then Some State0 else if isDigit c then Some State1 else None)"
| "numStep State0 c =
     (if c = CHR ''.'' then Some StateDot
      else if c = CHR ''e'' \<or> c = CHR ''E'' then Some StateE else None)"
| "numStep State1 c =
     (if isDigit c then Some State1
      else if c = CHR ''.'' then Some StateDot
      else if c = CHR ''e'' \<or> c = CHR ''E'' then Some StateE else None)"
| "numStep StateDot c = (if isDigit c then Some StateDot0 else None)"
| "numStep StateDot0 c =
     (if isDigit c then Some StateDot0
      else if c = CHR ''e'' \<or> c = CHR ''E'' then Some StateE else None)"
| "numStep StateE c =
     (if c = CHR ''+'' \<or> c = CHR ''-'' then Some StateESign
      else if isDigit c then Some StateE0 else None)"
| "numStep StateESign c = (if isDigit c then Some StateE0 else None)"
| "numStep StateE0 c = (if isDigit c then Some StateE0 else None)"

fun endNumber :: "numstate \<Rightarrow> bool" where
  "endNumber State0 = True"
| "endNumber State1 = True"
| "endNumber StateDot0 = True"
| "endNumber StateE0 = True"
| "endNumber StateNeg = False"
| "endNumber StateDot = False"
| "endNumber StateE = False"
| "endNumber StateESign = False"

definition endValue :: "members \<Rightarrow> char \<Rightarrow> scanstate option" where
  "endValue ms c =
     (if isSpace c then Some (EndValue ms)
      else if c = CHR '','' then Some (NextKey ms)
      else if c = CHR ''}'' then Some (EndTop ms)
      else None)"

fun scanStep :: "scanstate \<Rightarrow> char \<Rightarrow> scanstate option" where
  "scanStep BeginObject c =
     (if isSpace c then Some BeginObject
      else if c = CHR ''{'' then Some FirstKey
      else None)"
| "scanStep FirstKey c =
     (if isSpace c then Some FirstKey
      else if c = CHR 0x22 then Some (InKey [] [])
      else if c = CHR ''}'' then Some (EndTop [])
      else None)"
| "scanStep (NextKey ms) c =
     (if isSpace c then Some (NextKey ms)
      else if c = CHR 0x22 then Some (InKey ms [])
      else None)"
| "scanStep (InKey ms k) c =
     (if c = CHR 0x22 then Some (AfterKey ms k)
      else if c = CHR 0x5C then Some (InKeyEsc ms k)
      else if plainChar c then Some (InKey ms (k @ [c]))
      else None)"
| "scanStep (InKeyEsc ms k) c =
     (case unescape c of None \<Rightarrow> None | Some d \<Rightarrow> Some (InKey ms (k @ [d])))"
| "scanStep (AfterKey ms k) c =
     (if isSpace c then Some (AfterKey ms k)
      else if c = CHR '':'' then Some (BeginValue ms k)
      else None)"
| "scanStep (BeginValue ms k) c =
     (if isSpace c then Some (BeginValue ms k)
      else if c = CHR 0x22 then Some (InString ms k [])
      else if c = CHR ''-'' then Some (InNumber StateNeg ms k [c])
      else if c = CHR ''0'' then Some (InNumber State0 ms k [c])
      else if isDigit c then Some (InNumber State1 ms k [c])
      else if c = CHR ''t'' then Some (InLiteral ms k ''rue'' (JBool True))
      else if c = CHR ''f'' then Some (InLiteral ms k ''alse'' (JBool False))
      else if c = CHR ''n'' then Some (InLiteral ms k ''ull'' JNull)
      else None)"
| "scanStep (InString ms k s) c =
     (if c = CHR 0x22 then Some (EndValue (ms @ [(k, JString s)]))
      else if c = CHR 0x5C then Some (InStringEsc ms k s)
      else if plainChar c then Some (InString ms k (s @ [c]))
      else None)"
| "scanStep (InStringEsc ms k s) c =
     (case unescape c of None \<Rightarrow> None | Some d \<Rightarrow> Some (InString ms k (s @ [d])))"
| "scanStep (InNumber n ms k s) c =
     (case numStep n c of
        Some n' \<Rightarrow> Some (InNumber n' ms k (s @ [c]))
      | None \<Rightarrow> if endNumber n then endValue (ms @ [(k, JNumber s)]) c else None)"
| "scanStep (InLiteral ms k rest v) c =
     (case rest of
        [] \<Rightarrow> None
      | x # xs \<Rightarrow>
          if c \<noteq> x then None
          else if xs = [] then Some (EndValue (ms @ [(k, v)]))
          else Some (InLiteral ms k xs v))"
| "scanStep (EndValue ms) c = endValue ms c"
| "scanStep (EndTop ms) c = (if isSpace c then Some (EndTop ms) else None)"

fun scan :: "scanstate \<Rightarrow> string \<Rightarrow> scanstate option" where
  "scan st [] = Some st"
| "scan st (c # cs) = (case scanStep st c of None \<Rightarrow> None | Some st' \<Rightarrow> scan st' cs)"

definition parseObject :: "string \<Rightarrow> members option" where
  "parseObject body = (case scan BeginObject body of Some (EndTop ms) \<Rightarrow> Some ms | _ \<Rightarrow> None)"

text \<open>
  Modelled from the spec: how the decoder stores an object into a \<^verbatim>\<open>RegisterReq\<close>.
  The members are taken in their order. A member's name selects the field with that
  \<^verbatim>\<open>json\<close> tag, letter case ignored; a member of no field is skipped. A string is stored
  in the field (a later member overwrites an earlier one), \<^verbatim>\<open>null\<close> leaves the field as
  it is, and a number or a boolean is a type error: the decoder goes on, and returns the
  first such error at the end.
\<close>

definition asciiLower :: "char \<Rightarrow> char" where
  "asciiLower c =
     (if 65 \<le> (of_char c :: nat) \<and> (of_char c :: nat) \<le> 90
      then char_of (of_char c + 32 :: nat) else c)"

definition fieldNames :: "string list" where
  "fieldNames = [''username'', ''password'', ''name'']"

definition setField :: "string \<Rightarrow> string \<Rightarrow> RegisterReq \<Rightarrow> RegisterReq" where
  "setField f s r =
     (if f = ''username'' then r\<lparr>RegisterReq.Username := s\<rparr>
      else if f = ''password'' then r\<lparr>RegisterReq.Password := s\<rparr>
      else if f = ''name'' then r\<lparr>Name := s\<rparr>
      else r)"

definition UnmarshalTypeError :: "string \<Rightarrow> string \<Rightarrow> error" where
  "UnmarshalTypeError val field =
     ErrorString (''json: cannot unmarshal '' @ val @ '' into Go struct field RegisterReq.''
       @ field @ '' of type string'')"

definition saveError :: "error option \<Rightarrow> error \<Rightarrow> error option" where
  "saveError saved err = (case saved of None \<Rightarrow> Some err | Some e \<Rightarrow> Some e)"

fun object :: "members \<Rightarrow> error option \<times> RegisterReq \<Rightarrow> error option \<times> RegisterReq" where
  "object [] st = st"
| "object ((k, v) # ms) (saved, r) =
     (let f = map asciiLower k in
      if f \<notin> set fieldNames then object ms (saved, r)
      else (case v of
              JNull \<Rightarrow> object ms (saved, r)
            | JString s \<Rightarrow> object ms (saved, setField f s r)
            | JNumber n \<Rightarrow> object ms (saveError saved (UnmarshalTypeError ''number'' f), r)
            | JBool b \<Rightarrow> object ms (saveError saved (UnmarshalTypeError ''bool'' f), r)))"

definition RegisterReq0 :: RegisterReq where
  \<comment> \<open>\<^verbatim>\<open>new(RegisterReq)\<close>\<close>
  "RegisterReq0 = \<lparr>RegisterReq.Username = [], RegisterReq.Password = [], Name = []\<rparr>"

definition decodeJSON :: "Env \<Rightarrow> string \<Rightarrow> error + RegisterReq" where
  "decodeJSON env body =
     (case parseObject body of
        None \<Rightarrow> JSONDecoder env body
      | Some ms \<Rightarrow>
          (case object ms (None, RegisterReq0) of
             (None, r) \<Rightarrow> Inr r
           | (Some err, r) \<Rightarrow> Inl err))"

text \<open>
  Modelled from the spec: the form decoder behind \<^verbatim>\<open>Ctx.BodyParser\<close> (the server's
  reading of the URL-encoded pairs, and the framework's storing of them by \<^verbatim>\<open>form\<close>
  tag) is not under \<^verbatim>\<open>src/\<close>. It is embedded for the bodies the tests send and their
  like: pairs \<^verbatim>\<open>key=value\<close> joined by \<^verbatim>\<open>&\<close>, each with a non-empty key and one
  \<^verbatim>\<open>=\<close>, where \<^verbatim>\<open>+\<close> stands for a space and no \<^verbatim>\<open>%\<close> or \<^verbatim>\<open>;\<close> occurs; a key
  is in ASCII without \<^verbatim>\<open>.\<close>, \<^verbatim>\<open>[\<close> and \<^verbatim>\<open>]\<close>, a key that is a field name up to
  letter case is that field name, and no field name occurs twice. Each field takes the value
  of the pair of its name, the empty string when there is none; other pairs are skipped.
  No result is given for any other body.
\<close>

datatype formstate =
    InFormKey "(string \<times> string) list" string
  | InFormValue "(string \<times> string) list" string string

definition plusToSpace :: "char \<Rightarrow> char" where
  "plusToSpace c = (if c = CHR ''+'' then CHR '' '' else c)"

fun formStep :: "formstate \<Rightarrow> char \<Rightarrow> formstate option" where
  "formStep (InFormKey ps k) c =
     (if c = CHR ''='' then (if k = [] then None else Some (InFormValue ps k []))
      else if c = CHR ''&'' \<or> c = CHR ''%'' \<or> c = CHR '';'' then None
      else Some (InFormKey ps (k @ [plusToSpace c])))"
| "formStep (InFormValue ps k v) c =
     (if c = CHR ''&'' then Some (InFormKey (ps @ [(k, v)]) [])
      else if c = CHR ''='' \<or> c = CHR ''%'' \<or> c = CHR '';'' then None
      else Some (InFormValue ps k (v @ [plusToSpace c])))"

fun formScan :: "formstate \<Rightarrow> string \<Rightarrow> formstate option" where
  "formScan st [] = Some st"
| "formScan st (c # cs) =
     (case formStep st c of None \<Rightarrow> None | Some st' \<Rightarrow> formScan st' cs)"

definition formKeyChar :: "char \<Rightarrow> bool" where
  "formKeyChar c = ((of_char c :: nat) < 128 \<and> c \<noteq> CHR ''.'' \<and> c \<noteq> CHR ''[''
     \<and> c \<noteq> CHR '']'')"

definition formKey :: "string \<Rightarrow> bool" where
  "formKey k = (list_all formKeyChar k
     \<and> (if map asciiLower k \<in> set fieldNames then k \<in> set fieldNames else True))"

definition formPairs :: "string \<Rightarrow> (string \<times> string) list option" where
  "formPairs body =
     (case formScan (InFormKey [] []) body of
        Some (InFormValue ps k v) \<Rightarrow>
          (let pairs = ps @ [(k, v)] in
           if list_all formKey (map fst pairs)
              \<and> distinct (filter (\<lambda>k. k \<in> set fieldNames) (map fst pairs))
           then Some pairs else None)
      | _ \<Rightarrow> None)"

definition decodeForm :: "Env \<Rightarrow> string \<Rightarrow> error + RegisterReq" where
  "decodeForm env body =
     (case formPairs body of
        None \<Rightarrow> FormDecoder env body
      | Some pairs \<Rightarrow>
          Inr \<lparr>RegisterReq.Username = Peek pairs ''username'',
               RegisterReq.Password = Peek pairs ''password'',
               Name = Peek pairs ''name''\<rparr>)"

text \<open>
  Modelled from the spec: the framework's \<^verbatim>\<open>Ctx.BodyParser\<close> is not under
  \<^verbatim>\<open>src/\<close>. It chooses the decoder by the request's content type.
\<close>

definition MIMEApplicationJSON :: string where
  "MIMEApplicationJSON = ''application/json''"

definition MIMEApplicationForm :: string where
  "MIMEApplicationForm = ''application/x-www-form-urlencoded''"

definition BodyParser :: "Env \<Rightarrow> Ctx \<Rightarrow> error + RegisterReq" where
  "BodyParser env c =
     (let ctype = Get c ''Content-Type'' [] in
      if HasPrefix ctype MIMEApplicationJSON then decodeJSON env (Body (request c))
      else if HasPrefix ctype MIMEApplicationForm then decodeForm env (Body (request c))
      else OtherDecoder env (request c))"

text \<open>
  \<^verbatim>\<open>fiber_test.go\<close>, the configured error handler:
  \<^verbatim>\<open>
  ErrorHandler: func(c *fiber.Ctx, err error) error {
      c.Status(fiber.StatusInternalServerError)
      return c.SendString("Error : " + err.Error())
  }
  \<close>
\<close>

definition ErrorHandler :: "Ctx \<Rightarrow> error \<Rightarrow> Result" where
  "ErrorHandler c err =
     SendString (Status c StatusInternalServerError) (''Error : '' @ Error err)"

text \<open>The handlers, in the order of the tests that register them.\<close>

definition hello_world_handler :: Handler where
  \<comment> \<open>\<^verbatim>\<open>TestRouteHelloWorld\<close>, and \<^verbatim>\<open>helloW\<close> of \<^verbatim>\<open>TestRouteGroup\<close>\<close>
  "hello_world_handler next c = SendString c ''Hello World''"

definition hello_handler :: Handler where
  \<comment> \<open>\<^verbatim>\<open>TestCtx\<close>: \<^verbatim>\<open>name := c.Query("name", "Guest")\<close>\<close>
  "hello_handler next c =
     (let name = Query c ''name'' [''Guest''] in SendString c (''Hello '' @ name))"

definition req_handler :: Handler where
  \<comment> \<open>\<^verbatim>\<open>TestHttpRequest\<close>\<close>
  "req_handler next c =
     (let first = Get c ''firstname'' [];
          last = Cookies c ''lastname'' []
      in SendString c (''Hello '' @ first @ '' '' @ last))"

definition order_handler :: Handler where
  \<comment> \<open>\<^verbatim>\<open>TestRouteParameter\<close>\<close>
  "order_handler next c =
     (let userId = Params c ''userId'' [];
          orderId = Params c ''orderId'' []
      in SendString c (''Order '' @ orderId @ '' from '' @ userId))"

definition hi_handler :: "Env \<Rightarrow> Handler" where
  \<comment> \<open>\<^verbatim>\<open>TestFormReq\<close>\<close>
  "hi_handler env next c =
     (let name = defaultString (FormValue env (request c) ''name'') []
      in SendString c (''Hi '' @ name))"

definition upload_handler :: "Env \<Rightarrow> Handler" where
  \<comment> \<open>\<^verbatim>\<open>TestFormUpload\<close>\<close>
  "upload_handler env next c =
     (case FormFile env (request c) ''file'' of
        Inl err \<Rightarrow> (Some err, c)
      | Inr file \<Rightarrow>
          (case SaveFile env file (''./target/'' @ Filename file) of
             Some err \<Rightarrow> (Some err, c)
           | None \<Rightarrow> SendString c ''Upload Success''))"

definition login_handler :: "Env \<Rightarrow> Handler" where
  \<comment> \<open>\<^verbatim>\<open>TestRequestBody\<close>\<close>
  "login_handler env next c =
     (let body = Body (request c) in
      case json_Unmarshal env body of
        Inl err \<Rightarrow> (Some err, c)
      | Inr req \<Rightarrow> SendString c (''Hi '' @ LoginReq.Username req))"

definition register_handler :: "Env \<Rightarrow> Handler" where
  \<comment> \<open>\<^verbatim>\<open>TestBodyParser\<close>\<close>
  "register_handler env next c =
     (case BodyParser env c of
        Inl err \<Rightarrow> (Some err, c)
      | Inr req \<Rightarrow> SendString c (''Register Success '' @ RegisterReq.Username req))"

definition user_handler :: "Env \<Rightarrow> Handler" where
  \<comment> \<open>\<^verbatim>\<open>TestResponseJSON\<close>\<close>
  "user_handler env next c =
     JSON env c [(''username'', ''khan''), (''name'', ''Eko Khan'')]"

definition download_handler :: "Env \<Rightarrow> Handler" where
  \<comment> \<open>\<^verbatim>\<open>TestDownloadFile\<close>\<close>
  "download_handler env next c = Download env c ''./source/contoh.txt'' [''contoh.txt'']"

definition err_handler :: Handler where
  \<comment> \<open>\<^verbatim>\<open>TestErrorHandling\<close>: \<^verbatim>\<open>return errors.New("duar")\<close>\<close>
  "err_handler next c = (Some (ErrorString ''duar''), c)"

definition view_handler :: "Env \<Rightarrow> Handler" where
  \<comment> \<open>\<^verbatim>\<open>TestView\<close>\<close>
  "view_handler env next c =
     Render env c ''index''
       [(''title'', ''Hello Title''), (''header'', ''Hello Header''),
        (''content'', ''Hello Content'')]"

text \<open>
  \<^verbatim>\<open>var app = fiber.New(fiber.Config{ErrorHandler: ..., Views: engine})\<close>, and the
  routes the test functions register on it, in the order in which \<^verbatim>\<open>go test\<close> runs
  them (\<^verbatim>\<open>TestBodyParser\<close> runs once by itself and once from each of
  \<^verbatim>\<open>TestBodyParserJSON\<close> and \<^verbatim>\<open>TestBodyParserForm\<close>).
\<close>

definition engine :: "string \<times> string" where
  "engine = (''./template'', ''.mustache'')"

definition app0 :: App where
  "app0 = New (Config0\<lparr>cfgErrorHandler := Some ErrorHandler, Views := Some engine\<rparr>)"

definition registrations :: "Env \<Rightarrow> (App \<Rightarrow> App) list" where
  "registrations env =
     [app_Get ''/'' hello_world_handler,
      app_Get ''/hello'' hello_handler,
      app_Get ''/req'' req_handler,
      app_Get ''/users/:userId/orders/:orderId'' order_handler,
      app_Post ''/hi'' (hi_handler env),
      app_Post ''/upload'' (upload_handler env),
      app_Post ''/login'' (login_handler env),
      app_Post ''/register'' (register_handler env),
      app_Post ''/register'' (register_handler env),
      app_Post ''/register'' (register_handler env),
      app_Get ''/user'' (user_handler env),
      app_Get ''/download'' (download_handler env),
      grp_Get (app_Group ''/api'') ''/hello'' hello_world_handler,
      grp_Get (app_Group ''/api'') ''/world'' hello_world_handler,
      grp_Get (app_Group ''/web'') ''/hello'' hello_world_handler,
      grp_Get (app_Group ''/web'') ''/world'' hello_world_handler,
      app_Static ''/public'' (StaticHandler env ''./source''),
      app_Get ''/err'' err_handler,
      app_Get ''/view'' (view_handler env)]"

definition app :: "Env \<Rightarrow> App" where
  "app env = foldl (\<lambda>a register. register a) app0 (registrations env)"

section \<open>The server entry point\<close>

text \<open>
  \<^verbatim>\<open>main.go\<close>. \<^verbatim>\<open>time.Second\<close> is \<open>10\<^sup>9\<close> nanoseconds.
\<close>

definition Second :: "64 word" where
  "Second = 1000000000"

definition main_Config :: Config where
  "main_Config = Config0\<lparr>IdleTimeout := Second * 5, WriteTimeout := Second * 5,
     ReadTimeout := Second * 5, Prefork := True\<rparr>"

definition Println :: "Ctx \<Rightarrow> string \<Rightarrow> Ctx" where
  "Println c line = c\<lparr>stdout := stdout c @ [line]\<rparr>"

definition api_middleware :: Handler where
  "api_middleware next c =
     (let c1 = Println c ''This is middleware before processing request'';
          (err, c2) = next c1;
          c3 = Println c2 ''This is middleware after processing request''
      in (err, c3))"

definition api_hello_handler :: Handler where
  "api_hello_handler next c = SendString c ''Hello World !!!!!''"

definition main_app :: App where
  "main_app =
     app_Get ''/api/hello'' api_hello_handler
       (app_Use ''/api'' api_middleware (New main_Config))"

text \<open>
  A run of \<^verbatim>\<open>main\<close> is the sequence of what the process does after the routes are
  registered: the lines it prints, the call of \<^verbatim>\<open>app.Listen\<close>, and the panic if that
  call returns an error. Whether the process is a prefork child (\<^verbatim>\<open>fiber.IsChild()\<close>)
  and what \<^verbatim>\<open>Listen\<close> returns are given from outside.
\<close>

datatype event = Print string | Listen Config string | Panic error

definition main :: "bool \<Rightarrow> error option \<Rightarrow> event list" where
  "main IsChild listenResult =
     [if IsChild then Print ''This is child process'' else Print ''This is parent process'',
      Listen (config main_app) ''localhost:3000'']
     @ (case listenResult of None \<Rightarrow> [] | Some err \<Rightarrow> [Panic err])"

section \<open>Requests and an environment for the examples\<close>

text \<open>
  \<^verbatim>\<open>httptest.NewRequest(method, target, body)\<close> as the tests use it, with the target's
  path; query arguments, header fields and cookies are then set on the record, as the
  tests set them on the request.
\<close>

definition NewRequest :: "string \<Rightarrow> string \<Rightarrow> string \<Rightarrow> Request" where
  "NewRequest method path body =
     \<lparr>Method = method, Path = path, QueryArgs = [], Header = [], Cookie = [], Body = body\<rparr>"

definition login_body :: "string \<Rightarrow> string" where
  "login_body password = ''{\"username\":\"Eric\",\"password\":\"'' @ password @ ''\"}''"

definition register_json_body :: string where
  "register_json_body =
     ''{\"username\":\"Eric\",\"password\":\"rahasia\",\"name\":\"Eric Kunthady\"}''"

definition register_form_body :: string where
  "register_form_body = ''username=Eric&password=rahasia&name=Eric+Kunthady''"








text \<open>
  One environment on which the examples below are evaluated. Its decoders know the bodies
  the tests send (and the login body with a second password) and refuse every other body
  (the two of \<^verbatim>\<open>Ctx.BodyParser\<close> are asked only for bodies not embedded above);
  its multipart reader finds a file under the key \<^verbatim>\<open>file\<close> in a multipart request and
  takes the request body for the file's name; saving succeeds for \<^verbatim>\<open>./target/contoh.txt\<close>
  only. The theorems hold for every environment; this one only supplies concrete
  inputs.
\<close>

definition sample_env :: Env where
  "sample_env =
     \<lparr>FormValue = (\<lambda>q key. []),
      FormFile = (\<lambda>q key.
        if key = ''file'' \<and> HasPrefix (Peek (Header q) ''Content-Type'') ''multipart/form-data''
        then Inr \<lparr>Filename = Body q\<rparr>
        else Inl (ErrorString ''there is no uploaded file associated with the given key'')),
      SaveFile = (\<lambda>file path.
        if path = ''./target/contoh.txt'' then None
        else Some (ErrorString ''permission denied'')),
      json_Unmarshal = (\<lambda>body.
        if body = login_body ''rahasia''
        then Inr \<lparr>LoginReq.Username = ''Eric'', LoginReq.Password = ''rahasia''\<rparr>
        else if body = login_body ''secret''
        then Inr \<lparr>LoginReq.Username = ''Eric'', LoginReq.Password = ''secret''\<rparr>
        else Inl (ErrorString ''unexpected end of JSON input'')),
      JSONDecoder = (\<lambda>body.
        if body = register_json_body
        then Inr \<lparr>RegisterReq.Username = ''Eric'', RegisterReq.Password = ''rahasia'',
                  Name = ''Eric Kunthady''\<rparr>
        else Inl (ErrorString ''unexpected end of JSON input'')),
      FormDecoder = (\<lambda>body.
        if body = register_form_body
        then Inr \<lparr>RegisterReq.Username = ''Eric'', RegisterReq.Password = ''rahasia'',
                  Name = ''Eric Kunthady''\<rparr>
        else Inl (ErrorString ''failed to decode'')),
      OtherDecoder = (\<lambda>q. Inl (FiberError 422 ''Unprocessable Entity'')),
      JSON = (\<lambda>c m. (None, c)),
      Download = (\<lambda>c file name. (None, c)),
      Render = (\<lambda>c name bind. (None, c)),
      StaticHandler = (\<lambda>root next c. next c)\<rparr>"

section \<open>Evaluating the registrations and the dispatch\<close>

lemma stack_addRoute: "stack (addRoute r a) = stack a @ [r]"
  by (simp add: addRoute_def)

lemma config_addRoute: "config (addRoute r a) = config a"
  by (simp add: addRoute_def)

lemmas reg_defs = app_Get_def app_Post_def app_Use_def app_Static_def grp_Get_def
  app_Group_def getGroupPath_def TrimRight_def

lemmas fw_defs = SendString_def Status_def StatusInternalServerError_def StatusOK_def
  StatusNotFound_def Peek_def defaultString_def Query_def Get_def Cookies_def Params_def

lemma stack_app:
  "stack (app env) =
     [\<lparr>rMethod = ''GET'', rPath = ''/'', rUse = False, rHandler = hello_world_handler\<rparr>,
      \<lparr>rMethod = ''GET'', rPath = ''/hello'', rUse = False, rHandler = hello_handler\<rparr>,
      \<lparr>rMethod = ''GET'', rPath = ''/req'', rUse = False, rHandler = req_handler\<rparr>,
      \<lparr>rMethod = ''GET'', rPath = ''/users/:userId/orders/:orderId'', rUse = False,
         rHandler = order_handler\<rparr>,
      \<lparr>rMethod = ''POST'', rPath = ''/hi'', rUse = False, rHandler = hi_handler env\<rparr>,
      \<lparr>rMethod = ''POST'', rPath = ''/upload'', rUse = False, rHandler = upload_handler env\<rparr>,
      \<lparr>rMethod = ''POST'', rPath = ''/login'', rUse = False, rHandler = login_handler env\<rparr>,
      \<lparr>rMethod = ''POST'', rPath = ''/register'', rUse = False,
         rHandler = register_handler env\<rparr>,
      \<lparr>rMethod = ''POST'', rPath = ''/register'', rUse = False,
         rHandler = register_handler env\<rparr>,
      \<lparr>rMethod = ''POST'', rPath = ''/register'', rUse = False,
         rHandler = register_handler env\<rparr>,
      \<lparr>rMethod = ''GET'', rPath = ''/user'', rUse = False, rHandler = user_handler env\<rparr>,
      \<lparr>rMethod = ''GET'', rPath = ''/download'', rUse = False,
         rHandler = download_handler env\<rparr>,
      \<lparr>rMethod = ''GET'', rPath = ''/api/hello'', rUse = False,
         rHandler = hello_world_handler\<rparr>,
      \<lparr>rMethod = ''GET'', rPath = ''/api/world'', rUse = False,
         rHandler = hello_world_handler\<rparr>,
      \<lparr>rMethod = ''GET'', rPath = ''/web/hello'', rUse = False,
         rHandler = hello_world_handler\<rparr>,
      \<lparr>rMethod = ''GET'', rPath = ''/web/world'', rUse = False,
         rHandler = hello_world_handler\<rparr>,
      \<lparr>rMethod = ''GET'', rPath = ''/public'', rUse = True,
         rHandler = StaticHandler env ''./source''\<rparr>,
      \<lparr>rMethod = ''GET'', rPath = ''/err'', rUse = False, rHandler = err_handler\<rparr>,
      \<lparr>rMethod = ''GET'', rPath = ''/view'', rUse = False, rHandler = view_handler env\<rparr>]"
  by (simp add: app_def registrations_def app0_def New_def reg_defs stack_addRoute)

lemma config_app: "cfgErrorHandler (config (app env)) = Some ErrorHandler"
  by (simp add: app_def registrations_def app0_def New_def reg_defs config_addRoute)

lemma stack_main_app:
  "stack main_app =
     [\<lparr>rMethod = ''USE'', rPath = ''/api'', rUse = True, rHandler = api_middleware\<rparr>,
      \<lparr>rMethod = ''GET'', rPath = ''/api/hello'', rUse = False,
         rHandler = api_hello_handler\<rparr>]"
  by (simp add: main_app_def New_def reg_defs stack_addRoute)

lemma request_AcquireCtx: "request (AcquireCtx q) = q"
  by (simp add: AcquireCtx_def)

lemma AcquireCtx_params: "(AcquireCtx q)\<lparr>params := []\<rparr> = AcquireCtx q"
  by (simp add: AcquireCtx_def)

lemma request_NewRequest:
  "Method (NewRequest m p b) = m" "Path (NewRequest m p b) = p"
  "QueryArgs (NewRequest m p b) = []" "Header (NewRequest m p b) = []"
  "Cookie (NewRequest m p b) = []" "Body (NewRequest m p b) = b"
  by (simp_all add: NewRequest_def)

text \<open>
  A run that ends without an error answers with the context as the handlers left it; a run
  of the tests' application that ends with an error answers through its error handler.
\<close>

lemma Test_None: "app_next (stack a) (AcquireCtx q) = (None, c) \<Longrightarrow> Test a q = c"
  by (simp add: Test_def)

lemma Test_Some:
  "app_next (stack (app env)) (AcquireCtx q) = (Some e, c) \<Longrightarrow>
   Test (app env) q = c\<lparr>statusCode := 500, respBody := ''Error : '' @ Error e\<rparr>"
  by (simp add: Test_def config_app ErrorHandler_def fw_defs)

lemma segments_no_slash: "CHR ''/'' \<notin> set s \<Longrightarrow> segments s = [s]"
  by (induction s) auto

lemma segments_append_slash:
  "CHR ''/'' \<notin> set a \<Longrightarrow> segments (a @ CHR ''/'' # b) = a # segments b"
  by (induction a) auto

lemma segments_order_path:
  assumes "CHR ''/'' \<notin> set userId" "CHR ''/'' \<notin> set orderId"
  shows "segments (''/users/'' @ userId @ ''/orders/'' @ orderId)
         = [[], ''users'', userId, ''orders'', orderId]"
  using assms by (simp add: segments_append_slash segments_no_slash)

lemma match_segments_self: "\<exists>vs. match_segments ps ps = Some vs"
proof (induction ps)
  case Nil
  show ?case by simp
next
  case (Cons p ps)
  then obtain vs where "match_segments ps ps = Some vs" by blast
  then show ?case by (cases p) auto
qed

lemma app_next_skip:
  "\<forall>r \<in> set rs. route_match r (request c) = None \<Longrightarrow>
   app_next (rs @ rs') c = app_next rs' c"
  by (induction rs) auto

subsection \<open>Which handler answers which request\<close>

lemma dispatch_err:
  assumes "Method q = ''GET''" "Path q = ''/err''"
  shows "app_next (stack (app env)) (AcquireCtx q)
         = (Some (ErrorString ''duar''), AcquireCtx q)"
  using assms
  by (simp add: stack_app route_match_def HasPrefix_def request_AcquireCtx
      AcquireCtx_params err_handler_def)

lemma dispatch_hello:
  assumes "Method q = ''GET''" "Path q = ''/hello''"
  shows "app_next (stack (app env)) (AcquireCtx q) = hello_handler nx (AcquireCtx q)"
  using assms
  by (simp add: stack_app route_match_def request_AcquireCtx AcquireCtx_params
      hello_handler_def)

lemma dispatch_req:
  assumes "Method q = ''GET''" "Path q = ''/req''"
  shows "app_next (stack (app env)) (AcquireCtx q) = req_handler nx (AcquireCtx q)"
  using assms
  by (simp add: stack_app route_match_def request_AcquireCtx AcquireCtx_params
      req_handler_def)

lemma dispatch_order:
  assumes "Method q = ''GET''" "Path q = ''/users/'' @ userId @ ''/orders/'' @ orderId"
    "userId \<noteq> []" "orderId \<noteq> []" "CHR ''/'' \<notin> set userId" "CHR ''/'' \<notin> set orderId"
  shows "app_next (stack (app env)) (AcquireCtx q)
         = order_handler nx
             ((AcquireCtx q)\<lparr>params := [(''userId'', userId), (''orderId'', orderId)]\<rparr>)"
proof -
  have s: "segments (Path q) = [[], ''users'', userId, ''orders'', orderId]"
    using assms(2) segments_order_path [OF assms(5,6)] by simp
  show ?thesis
    using assms(1,3,4)
    by (simp add: stack_app route_match_def request_AcquireCtx s order_handler_def)
qed

lemma dispatch_upload:
  assumes "Method q = ''POST''" "Path q = ''/upload''"
  shows "app_next (stack (app env)) (AcquireCtx q) = upload_handler env nx (AcquireCtx q)"
  using assms
  by (simp add: stack_app route_match_def request_AcquireCtx AcquireCtx_params
      upload_handler_def)

lemma dispatch_login:
  assumes "Method q = ''POST''" "Path q = ''/login''"
  shows "app_next (stack (app env)) (AcquireCtx q) = login_handler env nx (AcquireCtx q)"
  using assms
  by (simp add: stack_app route_match_def request_AcquireCtx AcquireCtx_params
      login_handler_def)


lemma dispatch_group:
  assumes "Method q = ''GET''"
    "Path q \<in> {''/api/hello'', ''/api/world'', ''/web/hello'', ''/web/world''}"
  shows "app_next (stack (app env)) (AcquireCtx q) = hello_world_handler nx (AcquireCtx q)"
  using assms
  by (auto simp add: stack_app route_match_def request_AcquireCtx AcquireCtx_params
      hello_world_handler_def)

section \<open>The claims\<close>

subsection \<open>Errors become status 500\<close>

text \<open>
  Claim C1. When a route handler returns an error, the configured error handler maps it to
  a response with status 500 and the body \<^verbatim>\<open>"Error : "\<close> followed by the error's
  message: this is what the error handler computes on any context and any error, and what
  the application answers whenever its route stack ends with an error. In particular
  every request \<^verbatim>\<open>GET /err\<close>, whose handler returns the error \<^verbatim>\<open>duar\<close>, is answered
  with status 500 and the body \<^verbatim>\<open>Error : duar\<close>.
\<close>

theorem error_handler_status_500:
  "ErrorHandler c err
     = (None, c\<lparr>statusCode := 500, respBody := ''Error : '' @ Error err\<rparr>)
   \<and> (app_next (stack (app env)) (AcquireCtx q) = (Some err, c) \<longrightarrow>
        statusCode (Test (app env) q) = 500
        \<and> respBody (Test (app env) q) = ''Error : '' @ Error err)
   \<and> (Method q = ''GET'' \<and> Path q = ''/err'' \<longrightarrow>
        statusCode (Test (app env) q) = 500
        \<and> respBody (Test (app env) q) = ''Error : duar'')"
proof (intro conjI impI)
  show "ErrorHandler c err
          = (None, c\<lparr>statusCode := 500, respBody := ''Error : '' @ Error err\<rparr>)"
    by (simp add: ErrorHandler_def fw_defs)
next
  assume run: "app_next (stack (app env)) (AcquireCtx q) = (Some err, c)"
  show "statusCode (Test (app env) q) = 500"
    by (simp add: Test_Some [OF run])
  show "respBody (Test (app env) q) = ''Error : '' @ Error err"
    by (simp add: Test_Some [OF run])
next
  assume "Method q = ''GET'' \<and> Path q = ''/err''"
  then have run: "app_next (stack (app env)) (AcquireCtx q)
                  = (Some (ErrorString ''duar''), AcquireCtx q)"
    by (simp add: dispatch_err)
  show "statusCode (Test (app env) q) = 500"
    by (simp add: Test_Some [OF run])
  show "respBody (Test (app env) q) = ''Error : duar''"
    by (simp add: Test_Some [OF run])
qed

theorem error_handler_status_500_witness:
  "Method (NewRequest ''GET'' ''/err'' []) = ''GET''
   \<and> Path (NewRequest ''GET'' ''/err'' []) = ''/err''
   \<and> app_next (stack (app sample_env)) (AcquireCtx (NewRequest ''GET'' ''/err'' []))
       = (Some (ErrorString ''duar''), AcquireCtx (NewRequest ''GET'' ''/err'' []))
   \<and> statusCode (Test (app sample_env) (NewRequest ''GET'' ''/err'' [])) = 500
   \<and> respBody (Test (app sample_env) (NewRequest ''GET'' ''/err'' [])) = ''Error : duar''"
  using error_handler_status_500
    [of "AcquireCtx (NewRequest ''GET'' ''/err'' [])" "ErrorString ''duar''" sample_env
        "NewRequest ''GET'' ''/err'' []"]
  by (simp add: request_NewRequest dispatch_err)

subsection \<open>Query parameter with a default\<close>

text \<open>
  Claim C2, as amended. For every request \<^verbatim>\<open>GET /hello\<close> whose query string binds
  \<^verbatim>\<open>name\<close> to a non-empty value \<open>v\<close>, the response has status 200 and the body
  \<^verbatim>\<open>"Hello "\<close> followed by \<open>v\<close>; for every request \<^verbatim>\<open>GET /hello\<close> with no \<^verbatim>\<open>name\<close>
  query parameter, or with \<^verbatim>\<open>name\<close> bound to the empty value, the response has status
  200 and the body \<^verbatim>\<open>Hello Guest\<close>.
\<close>

theorem hello_query_default:
  assumes "Method q = ''GET''" "Path q = ''/hello''"
  shows "(map_of (QueryArgs q) ''name'' = Some v \<and> v \<noteq> [] \<longrightarrow>
            statusCode (Test (app env) q) = 200
            \<and> respBody (Test (app env) q) = ''Hello '' @ v)
       \<and> (map_of (QueryArgs q) ''name'' = None \<or> map_of (QueryArgs q) ''name'' = Some [] \<longrightarrow>
            statusCode (Test (app env) q) = 200
            \<and> respBody (Test (app env) q) = ''Hello Guest'')"
proof -
  have run: "Test (app env) q = snd (hello_handler (\<lambda>c. (None, c)) (AcquireCtx q))"
    by (rule Test_None) (simp add: dispatch_hello [OF assms, where nx = "\<lambda>c. (None, c)"] hello_handler_def SendString_def)
  show ?thesis
    by (auto simp add: run hello_handler_def fw_defs request_AcquireCtx)
      (simp_all add: AcquireCtx_def StatusOK_def)
qed

theorem hello_query_default_witness:
  "map_of (QueryArgs ((NewRequest ''GET'' ''/hello'' [])\<lparr>QueryArgs := [(''name'', ''Dion'')]\<rparr>))
       ''name'' = Some ''Dion''
   \<and> respBody (Test (app sample_env)
        ((NewRequest ''GET'' ''/hello'' [])\<lparr>QueryArgs := [(''name'', ''Dion'')]\<rparr>))
       = ''Hello Dion''
   \<and> statusCode (Test (app sample_env)
        ((NewRequest ''GET'' ''/hello'' [])\<lparr>QueryArgs := [(''name'', ''Dion'')]\<rparr>)) = 200
   \<and> map_of (QueryArgs (NewRequest ''GET'' ''/hello'' [])) ''name'' = None
   \<and> respBody (Test (app sample_env) (NewRequest ''GET'' ''/hello'' [])) = ''Hello Guest''
   \<and> statusCode (Test (app sample_env) (NewRequest ''GET'' ''/hello'' [])) = 200"
  using hello_query_default
      [of "(NewRequest ''GET'' ''/hello'' [])\<lparr>QueryArgs := [(''name'', ''Dion'')]\<rparr>"
          "''Dion''" sample_env]
    hello_query_default [of "NewRequest ''GET'' ''/hello'' []" "[]" sample_env]
  by (simp add: request_NewRequest)

text \<open>
  The claim as it was stated promises \<^verbatim>\<open>"Hello "\<close> followed by \<open>v\<close> for every bound
  value. The request \<^verbatim>\<open>GET /hello?name=\<close> binds \<^verbatim>\<open>name\<close> to the empty value, and is
  answered with \<^verbatim>\<open>Hello Guest\<close>.
\<close>

theorem hello_empty_name_counterexample:
  "Method ((NewRequest ''GET'' ''/hello'' [])\<lparr>QueryArgs := [(''name'', [])]\<rparr>) = ''GET''
   \<and> Path ((NewRequest ''GET'' ''/hello'' [])\<lparr>QueryArgs := [(''name'', [])]\<rparr>) = ''/hello''
   \<and> map_of (QueryArgs ((NewRequest ''GET'' ''/hello'' [])\<lparr>QueryArgs := [(''name'', [])]\<rparr>))
        ''name'' = Some []
   \<and> respBody (Test (app sample_env)
        ((NewRequest ''GET'' ''/hello'' [])\<lparr>QueryArgs := [(''name'', [])]\<rparr>)) = ''Hello Guest''
   \<and> respBody (Test (app sample_env)
        ((NewRequest ''GET'' ''/hello'' [])\<lparr>QueryArgs := [(''name'', [])]\<rparr>)) \<noteq> ''Hello '' @ []"
proof -
  let ?q = "(NewRequest ''GET'' ''/hello'' [])\<lparr>QueryArgs := [(''name'', [])]\<rparr>"
  have m: "Method ?q = ''GET''" and p: "Path ?q = ''/hello''"
    by (simp_all add: request_NewRequest)
  have run: "Test (app sample_env) ?q = snd (hello_handler (\<lambda>c. (None, c)) (AcquireCtx ?q))"
    by (rule Test_None) (simp add: dispatch_hello [OF m p, where nx = "\<lambda>c. (None, c)"] hello_handler_def SendString_def)
  show ?thesis
    by (simp add: run hello_handler_def fw_defs request_AcquireCtx request_NewRequest)
qed

subsection \<open>Header and cookie\<close>

text \<open>
  Claim C3. For every request \<^verbatim>\<open>GET /req\<close> carrying a request header \<^verbatim>\<open>firstname\<close>
  with value \<open>F\<close> and a cookie \<^verbatim>\<open>lastname\<close> with value \<open>L\<close>, the response has status
  200 and the body \<^verbatim>\<open>"Hello "\<close>, \<open>F\<close>, one space, \<open>L\<close>, in this order.
\<close>

theorem req_header_cookie_echo:
  assumes "Method q = ''GET''" "Path q = ''/req''"
    "map_of (Header q) ''firstname'' = Some F" "map_of (Cookie q) ''lastname'' = Some L"
  shows "statusCode (Test (app env) q) = 200
       \<and> respBody (Test (app env) q) = ''Hello '' @ F @ '' '' @ L"
proof -
  have run: "Test (app env) q = snd (req_handler (\<lambda>c. (None, c)) (AcquireCtx q))"
    by (rule Test_None) (simp add: dispatch_req [OF assms(1,2), where nx = "\<lambda>c. (None, c)"] req_handler_def SendString_def)
  show ?thesis
    using assms(3,4)
    by (simp add: run req_handler_def fw_defs request_AcquireCtx)
      (simp add: AcquireCtx_def StatusOK_def)
qed

theorem req_header_cookie_echo_witness:
  "map_of (Header ((NewRequest ''GET'' ''/req'' [])
       \<lparr>Header := [(''firstname'', ''Eko'')], Cookie := [(''lastname'', ''Soegianto'')]\<rparr>))
     ''firstname'' = Some ''Eko''
   \<and> statusCode (Test (app sample_env) ((NewRequest ''GET'' ''/req'' [])
       \<lparr>Header := [(''firstname'', ''Eko'')], Cookie := [(''lastname'', ''Soegianto'')]\<rparr>)) = 200
   \<and> respBody (Test (app sample_env) ((NewRequest ''GET'' ''/req'' [])
       \<lparr>Header := [(''firstname'', ''Eko'')], Cookie := [(''lastname'', ''Soegianto'')]\<rparr>))
     = ''Hello Eko Soegianto''"
  using req_header_cookie_echo
      [of "(NewRequest ''GET'' ''/req'' [])
             \<lparr>Header := [(''firstname'', ''Eko'')], Cookie := [(''lastname'', ''Soegianto'')]\<rparr>"
          "''Eko''" "''Soegianto''" sample_env]
  by (simp add: request_NewRequest)

subsection \<open>Route parameters\<close>

text \<open>
  Claim C4. For every request \<^verbatim>\<open>GET /users/U/orders/O\<close>, where \<open>U\<close> and \<open>O\<close> are
  single non-empty path segments (they contain no \<^verbatim>\<open>/\<close>), the response has status 200
  and the body \<^verbatim>\<open>"Order "\<close>, \<open>O\<close>, \<^verbatim>\<open>" from "\<close>, \<open>U\<close>. In particular
  \<^verbatim>\<open>GET /users/eko/orders/2\<close> is answered with \<^verbatim>\<open>Order 2 from eko\<close>.
\<close>

theorem order_route_parameters:
  assumes "Method q = ''GET''" "Path q = ''/users/'' @ userId @ ''/orders/'' @ orderId"
    "userId \<noteq> []" "orderId \<noteq> []" "CHR ''/'' \<notin> set userId" "CHR ''/'' \<notin> set orderId"
  shows "statusCode (Test (app env) q) = 200
       \<and> respBody (Test (app env) q) = ''Order '' @ orderId @ '' from '' @ userId"
proof -
  let ?c = "(AcquireCtx q)\<lparr>params := [(''userId'', userId), (''orderId'', orderId)]\<rparr>"
  have run: "Test (app env) q = snd (order_handler (\<lambda>c. (None, c)) ?c)"
    by (rule Test_None) (simp add: dispatch_order [OF assms, where nx = "\<lambda>c. (None, c)"] order_handler_def SendString_def)
  show ?thesis
    using assms(3,4)
    by (simp add: run order_handler_def fw_defs) (simp add: AcquireCtx_def StatusOK_def)
qed

theorem order_route_parameters_witness:
  "''/users/eko/orders/2'' = ''/users/'' @ ''eko'' @ ''/orders/'' @ ''2''
   \<and> statusCode (Test (app sample_env) (NewRequest ''GET'' ''/users/eko/orders/2'' [])) = 200
   \<and> respBody (Test (app sample_env) (NewRequest ''GET'' ''/users/eko/orders/2'' []))
       = ''Order 2 from eko''"
  using order_route_parameters
      [of "NewRequest ''GET'' ''/users/eko/orders/2'' []" "''eko''" "''2''" sample_env]
  by (simp add: request_NewRequest)


subsection \<open>The entry point\<close>

lemma sint_five_seconds: "sint (Second * 5) = 5000000000"
  by (simp add: Second_def)

lemma config_main_app: "config main_app = main_Config"
  by (simp add: main_app_def New_def reg_defs config_addRoute)

text \<open>
  Claim C5. The entry point constructs the server with a fixed configuration in which
  prefork is enabled and the idle, read and write timeouts are each exactly 5 seconds
  (\<open>5 \<cdot> 10\<^sup>9\<close> nanoseconds). At startup it first prints one line, then listens on
  \<^verbatim>\<open>localhost:3000\<close> with that configuration: the line is \<^verbatim>\<open>This is child process\<close>
  if and only if the process is a prefork child, and \<^verbatim>\<open>This is parent process\<close>
  otherwise.
\<close>

theorem main_prefork_configuration:
  "Prefork (config main_app)
   \<and> IdleTimeout (config main_app) = Second * 5
   \<and> sint (IdleTimeout (config main_app)) = 5 * 10 ^ 9
   \<and> ReadTimeout (config main_app) = Second * 5
   \<and> sint (ReadTimeout (config main_app)) = 5 * 10 ^ 9
   \<and> WriteTimeout (config main_app) = Second * 5
   \<and> sint (WriteTimeout (config main_app)) = 5 * 10 ^ 9
   \<and> (\<exists>rest. main IsChild listenResult =
          Print (if IsChild then ''This is child process'' else ''This is parent process'')
          # Listen (config main_app) ''localhost:3000'' # rest)
   \<and> (Print ''This is child process'' \<in> set (main IsChild listenResult)) = IsChild
   \<and> (Print ''This is parent process'' \<in> set (main IsChild listenResult)) = (\<not> IsChild)"
  by (simp add: config_main_app main_Config_def Config0_def main_def sint_five_seconds
      split: option.splits)

subsection \<open>Body parsing\<close>























subsection \<open>Route groups\<close>

lemma getGroupPath_concat:
  assumes "P = [] \<or> last P \<noteq> CHR ''/''" "Q \<noteq> []" "hd Q = CHR ''/''"
  shows "getGroupPath P Q = P @ Q"
proof -
  have "dropWhile (\<lambda>c. c = CHR ''/'') (rev P) = rev P"
    using assms(1) by (cases "rev P") (auto simp: last_rev)
  then show ?thesis
    using assms(2,3) by (simp add: getGroupPath_def TrimRight_def)
qed

lemma stack_grp_Get:
  "stack (grp_Get (app_Group P) Q h a)
   = stack a @ [\<lparr>rMethod = ''GET'', rPath = getGroupPath P Q, rUse = False, rHandler = h\<rparr>]"
  by (simp add: grp_Get_def app_Group_def app_Get_def stack_addRoute)

lemma group_route_reached:
  assumes "Method q = ''GET''" "Path q = getGroupPath P Q"
    "\<forall>r \<in> set (stack a). route_match r q = None"
  shows "\<exists>vs. app_next (stack (grp_Get (app_Group P) Q h a)) (AcquireCtx q)
              = h (app_next []) ((AcquireCtx q)\<lparr>params := vs\<rparr>)"
proof -
  obtain vs where vs: "match_segments (segments (getGroupPath P Q))
                         (segments (getGroupPath P Q)) = Some vs"
    using match_segments_self by blast
  have sk: "\<forall>r \<in> set (stack a). route_match r (request (AcquireCtx q)) = None"
    using assms(3) by (simp add: request_AcquireCtx)
  have "app_next (stack (grp_Get (app_Group P) Q h a)) (AcquireCtx q)
        = h (app_next []) ((AcquireCtx q)\<lparr>params := vs\<rparr>)"
    unfolding stack_grp_Get app_next_skip [OF sk]
    using assms(1,2) vs by (simp add: route_match_def request_AcquireCtx)
  then show ?thesis by blast
qed

text \<open>
  Claim C7, as amended. Registering a handler on a group with prefix \<open>P\<close> under path
  \<open>Q\<close> registers it for \<^verbatim>\<open>GET\<close> at the framework's join of \<open>P\<close> and \<open>Q\<close> (the prefix
  without its trailing slashes, followed by the path, which is given a leading slash if it
  has none; the prefix alone when the path is empty), and makes it reachable there: a
  request \<^verbatim>\<open>GET\<close> to the joined path that no route registered earlier matches runs the
  handler. The join is the concatenation \<open>P + Q\<close> when the prefix has no trailing slash and
  the path begins with a slash, as all in the repository do: registering the same hello
  handler on the groups \<^verbatim>\<open>/api\<close> and \<^verbatim>\<open>/web\<close> at \<^verbatim>\<open>/hello\<close> and \<^verbatim>\<open>/world\<close> makes
  every request \<^verbatim>\<open>GET /web/hello\<close>, \<^verbatim>\<open>GET /api/hello\<close>, \<^verbatim>\<open>GET /api/world\<close> and
  \<^verbatim>\<open>GET /web/world\<close> return status 200 with the body \<^verbatim>\<open>Hello World\<close>.
\<close>

theorem group_routes_at_joined_path:
  "stack (grp_Get (app_Group P) Q h a)
     = stack a @ [\<lparr>rMethod = ''GET'', rPath = getGroupPath P Q, rUse = False, rHandler = h\<rparr>]
   \<and> (Method q = ''GET'' \<and> Path q = getGroupPath P Q
      \<and> (\<forall>r \<in> set (stack a). route_match r q = None) \<longrightarrow>
      (\<exists>vs. app_next (stack (grp_Get (app_Group P) Q h a)) (AcquireCtx q)
             = h (app_next []) ((AcquireCtx q)\<lparr>params := vs\<rparr>)))
   \<and> ((P = [] \<or> last P \<noteq> CHR ''/'') \<and> Q \<noteq> [] \<and> hd Q = CHR ''/'' \<longrightarrow>
      getGroupPath P Q = P @ Q)
   \<and> (Method q = ''GET''
      \<and> Path q \<in> {''/api'' @ ''/hello'', ''/api'' @ ''/world'',
                   ''/web'' @ ''/hello'', ''/web'' @ ''/world''} \<longrightarrow>
      statusCode (Test (app env) q) = 200 \<and> respBody (Test (app env) q) = ''Hello World'')"
proof (intro conjI impI)
  show "stack (grp_Get (app_Group P) Q h a)
     = stack a @ [\<lparr>rMethod = ''GET'', rPath = getGroupPath P Q, rUse = False, rHandler = h\<rparr>]"
    by (rule stack_grp_Get)
next
  assume "Method q = ''GET'' \<and> Path q = getGroupPath P Q
      \<and> (\<forall>r \<in> set (stack a). route_match r q = None)"
  then show "\<exists>vs. app_next (stack (grp_Get (app_Group P) Q h a)) (AcquireCtx q)
              = h (app_next []) ((AcquireCtx q)\<lparr>params := vs\<rparr>)"
    by (intro group_route_reached) simp_all
next
  assume "(P = [] \<or> last P \<noteq> CHR ''/'') \<and> Q \<noteq> [] \<and> hd Q = CHR ''/''"
  then show "getGroupPath P Q = P @ Q"
    by (simp add: getGroupPath_concat)
next
  assume a: "Method q = ''GET''
      \<and> Path q \<in> {''/api'' @ ''/hello'', ''/api'' @ ''/world'',
                   ''/web'' @ ''/hello'', ''/web'' @ ''/world''}"
  then have "app_next (stack (app env)) (AcquireCtx q)
             = (None, (AcquireCtx q)\<lparr>respBody := ''Hello World''\<rparr>)"
    by (simp add: dispatch_group [where nx = "\<lambda>c. (None, c)"] hello_world_handler_def
        SendString_def)
  then have run: "Test (app env) q = (AcquireCtx q)\<lparr>respBody := ''Hello World''\<rparr>"
    by (rule Test_None)
  show "statusCode (Test (app env) q) = 200"
    by (simp add: run AcquireCtx_def StatusOK_def)
  show "respBody (Test (app env) q) = ''Hello World''"
    by (simp add: run)
qed

theorem group_routes_at_joined_path_witness:
  "getGroupPath ''/web'' ''/hello'' = ''/web'' @ ''/hello''
   \<and> (\<exists>vs. app_next (stack (grp_Get (app_Group ''/web'') ''/hello'' hello_world_handler app0))
              (AcquireCtx (NewRequest ''GET'' ''/web/hello'' []))
            = hello_world_handler (app_next [])
                ((AcquireCtx (NewRequest ''GET'' ''/web/hello'' []))\<lparr>params := vs\<rparr>))
   \<and> statusCode (Test (app sample_env) (NewRequest ''GET'' ''/web/hello'' [])) = 200
   \<and> respBody (Test (app sample_env) (NewRequest ''GET'' ''/web/hello'' [])) = ''Hello World''"
proof -
  let ?q = "NewRequest ''GET'' ''/web/hello'' []"
  note t = group_routes_at_joined_path
      [of "''/web''" "''/hello''" hello_world_handler app0 ?q sample_env]
  have join: "getGroupPath ''/web'' ''/hello'' = ''/web'' @ ''/hello''"
    using t by simp
  have "Method ?q = ''GET'' \<and> Path ?q = getGroupPath ''/web'' ''/hello''
      \<and> (\<forall>r \<in> set (stack app0). route_match r ?q = None)"
    by (simp add: request_NewRequest join app0_def New_def)
  with t have reach:
    "\<exists>vs. app_next (stack (grp_Get (app_Group ''/web'') ''/hello'' hello_world_handler app0))
              (AcquireCtx ?q)
            = hello_world_handler (app_next []) ((AcquireCtx ?q)\<lparr>params := vs\<rparr>)"
    by blast
  have "Method ?q = ''GET''
      \<and> Path ?q \<in> {''/api'' @ ''/hello'', ''/api'' @ ''/world'',
                    ''/web'' @ ''/hello'', ''/web'' @ ''/world''}"
    by (simp add: request_NewRequest)
  with t have "statusCode (Test (app sample_env) ?q) = 200
      \<and> respBody (Test (app sample_env) ?q) = ''Hello World''"
    by blast
  with join reach show ?thesis by blast
qed

text \<open>
  The claim as it was stated promises the handler at the concatenation \<open>P + Q\<close>, for every
  prefix and path and on every application. For the prefix \<^verbatim>\<open>/api/\<close> and the path
  \<^verbatim>\<open>/hello\<close> the route is registered at \<^verbatim>\<open>/api/hello\<close>: the request to the
  concatenation, \<^verbatim>\<open>GET /api//hello\<close>, matches no route and is answered by the error
  handler, while \<^verbatim>\<open>GET /api/hello\<close> runs the handler. And where an earlier route
  answers the same path, as \<^verbatim>\<open>/web/hello\<close> here, the group's handler is not the one that
  runs.
\<close>

theorem group_trailing_slash_counterexample:
  "getGroupPath ''/api/'' ''/hello'' = ''/api/hello''
   \<and> ''/api/'' @ ''/hello'' = ''/api//hello''
   \<and> statusCode (Test (grp_Get (app_Group ''/api/'') ''/hello'' hello_world_handler app0)
        (NewRequest ''GET'' (''/api/'' @ ''/hello'') [])) = 500
   \<and> respBody (Test (grp_Get (app_Group ''/api/'') ''/hello'' hello_world_handler app0)
        (NewRequest ''GET'' (''/api/'' @ ''/hello'') [])) \<noteq> ''Hello World''
   \<and> statusCode (Test (grp_Get (app_Group ''/api/'') ''/hello'' hello_world_handler app0)
        (NewRequest ''GET'' ''/api/hello'' [])) = 200
   \<and> respBody (Test (grp_Get (app_Group ''/api/'') ''/hello'' hello_world_handler app0)
        (NewRequest ''GET'' ''/api/hello'' [])) = ''Hello World''
   \<and> respBody (Test (grp_Get (app_Group ''/web'') ''/hello'' hello_world_handler
                   (app_Get ''/web/hello'' api_hello_handler app0))
        (NewRequest ''GET'' (''/web'' @ ''/hello'') [])) = ''Hello World !!!!!''"
  by (simp add: Test_def app0_def New_def Config0_def reg_defs stack_addRoute config_addRoute
      route_match_def request_NewRequest request_AcquireCtx ErrorHandler_def fw_defs
      hello_world_handler_def api_hello_handler_def AcquireCtx_def)

subsection \<open>The middleware of the entry point\<close>

text \<open>
  Claim C8. The middleware registered on the \<^verbatim>\<open>/api\<close> prefix is a pure wrapper around
  the downstream handlers: it prints a line, runs the downstream chain once on the context,
  prints a second line, and returns the downstream error value unchanged, with the
  downstream response untouched (a downstream that prints one line \<open>m\<close> and returns \<open>e\<close>
  leaves \<open>m\<close> once between the two lines, and \<open>e\<close> is returned). It runs for every
  request to a path under \<^verbatim>\<open>/api\<close>, around the rest of the route stack. The response
  status and body of \<^verbatim>\<open>GET /api/hello\<close> are exactly those produced by its handler,
  status 200 and body \<^verbatim>\<open>Hello World !!!!!\<close>.
\<close>

theorem api_middleware_pure_wrapper:
  "api_middleware next c =
     (fst (next (Println c ''This is middleware before processing request'')),
      Println (snd (next (Println c ''This is middleware before processing request'')))
        ''This is middleware after processing request'')
   \<and> statusCode (snd (api_middleware next c))
       = statusCode (snd (next (Println c ''This is middleware before processing request'')))
   \<and> respBody (snd (api_middleware next c))
       = respBody (snd (next (Println c ''This is middleware before processing request'')))
   \<and> api_middleware (\<lambda>c'. (e, Println c' m)) c =
       (e, c\<lparr>stdout := stdout c @ [''This is middleware before processing request'', m,
                                   ''This is middleware after processing request'']\<rparr>)
   \<and> (HasPrefix (Path q) ''/api'' \<longrightarrow>
        app_next (stack main_app) (AcquireCtx q)
          = api_middleware (app_next (tl (stack main_app))) (AcquireCtx q))
   \<and> (Method q = ''GET'' \<and> Path q = ''/api/hello'' \<longrightarrow>
        statusCode (Test main_app q) = 200
        \<and> respBody (Test main_app q) = ''Hello World !!!!!''
        \<and> statusCode (Test main_app q)
            = statusCode (snd (api_hello_handler next (AcquireCtx q)))
        \<and> respBody (Test main_app q)
            = respBody (snd (api_hello_handler next (AcquireCtx q)))
        \<and> stdout (Test main_app q)
            = [''This is middleware before processing request'',
               ''This is middleware after processing request''])"
proof (intro conjI impI)
  show eq: "api_middleware next c =
     (fst (next (Println c ''This is middleware before processing request'')),
      Println (snd (next (Println c ''This is middleware before processing request'')))
        ''This is middleware after processing request'')"
    by (simp add: api_middleware_def Let_def split: prod.splits)
  show "statusCode (snd (api_middleware next c))
       = statusCode (snd (next (Println c ''This is middleware before processing request'')))"
    by (simp add: eq Println_def)
  show "respBody (snd (api_middleware next c))
       = respBody (snd (next (Println c ''This is middleware before processing request'')))"
    by (simp add: eq Println_def)
  show "api_middleware (\<lambda>c'. (e, Println c' m)) c =
       (e, c\<lparr>stdout := stdout c @ [''This is middleware before processing request'', m,
                                   ''This is middleware after processing request'']\<rparr>)"
    by (simp add: api_middleware_def Println_def)
next
  assume "HasPrefix (Path q) ''/api''"
  then show "app_next (stack main_app) (AcquireCtx q)
          = api_middleware (app_next (tl (stack main_app))) (AcquireCtx q)"
    by (simp add: stack_main_app route_match_def request_AcquireCtx AcquireCtx_params)
next
  assume a: "Method q = ''GET'' \<and> Path q = ''/api/hello''"
  have "app_next (stack main_app) (AcquireCtx q)
        = (None, (AcquireCtx q)\<lparr>respBody := ''Hello World !!!!!'',
             stdout := [''This is middleware before processing request'',
                        ''This is middleware after processing request'']\<rparr>)"
    using a
    by (simp add: stack_main_app route_match_def HasPrefix_def request_AcquireCtx
        api_middleware_def Println_def api_hello_handler_def SendString_def)
      (simp add: AcquireCtx_def)
  then have run: "Test main_app q
      = (AcquireCtx q)\<lparr>respBody := ''Hello World !!!!!'',
             stdout := [''This is middleware before processing request'',
                        ''This is middleware after processing request'']\<rparr>"
    by (rule Test_None)
  show "statusCode (Test main_app q) = 200"
    by (simp add: run AcquireCtx_def StatusOK_def)
  show "respBody (Test main_app q) = ''Hello World !!!!!''"
    by (simp add: run)
  show "statusCode (Test main_app q)
            = statusCode (snd (api_hello_handler next (AcquireCtx q)))"
    by (simp add: run api_hello_handler_def SendString_def)
  show "respBody (Test main_app q)
            = respBody (snd (api_hello_handler next (AcquireCtx q)))"
    by (simp add: run api_hello_handler_def SendString_def)
  show "stdout (Test main_app q)
            = [''This is middleware before processing request'',
               ''This is middleware after processing request'']"
    by (simp add: run)
qed

theorem api_middleware_pure_wrapper_witness:
  "HasPrefix (Path (NewRequest ''GET'' ''/api/hello'' [])) ''/api''
   \<and> app_next (stack main_app) (AcquireCtx (NewRequest ''GET'' ''/api/hello'' []))
       = api_middleware (app_next (tl (stack main_app)))
           (AcquireCtx (NewRequest ''GET'' ''/api/hello'' []))
   \<and> statusCode (Test main_app (NewRequest ''GET'' ''/api/hello'' [])) = 200
   \<and> respBody (Test main_app (NewRequest ''GET'' ''/api/hello'' [])) = ''Hello World !!!!!''
   \<and> stdout (Test main_app (NewRequest ''GET'' ''/api/hello'' []))
       = [''This is middleware before processing request'',
          ''This is middleware after processing request'']"
  using api_middleware_pure_wrapper
      [of "\<lambda>c. (None, c)" "AcquireCtx (NewRequest ''GET'' ''/api/hello'' [])" None "[]"
          "NewRequest ''GET'' ''/api/hello'' []"]
  by (simp add: request_NewRequest HasPrefix_def)

subsection \<open>Login and the password\<close>

text \<open>
  Claim C9. The \<^verbatim>\<open>POST /login\<close> response does not depend on the password: for every
  two request bodies that decode to the login credential pair with the same username and
  arbitrary, possibly different, passwords, the responses are identical, namely status 200
  with the body \<^verbatim>\<open>"Hi "\<close> followed by the username. The response is a function of the
  username alone: the password does not enter it.
\<close>

theorem login_response_ignores_password:
  assumes "Method q1 = ''POST''" "Path q1 = ''/login''"
    "Method q2 = ''POST''" "Path q2 = ''/login''"
    "json_Unmarshal env (Body q1) = Inr \<lparr>LoginReq.Username = u, LoginReq.Password = p1\<rparr>"
    "json_Unmarshal env (Body q2) = Inr \<lparr>LoginReq.Username = u, LoginReq.Password = p2\<rparr>"
  shows "statusCode (Test (app env) q1) = 200
       \<and> respBody (Test (app env) q1) = ''Hi '' @ u
       \<and> statusCode (Test (app env) q2) = statusCode (Test (app env) q1)
       \<and> respBody (Test (app env) q2) = respBody (Test (app env) q1)
       \<and> stdout (Test (app env) q2) = stdout (Test (app env) q1)"
proof -
  have "app_next (stack (app env)) (AcquireCtx q1)
        = (None, (AcquireCtx q1)\<lparr>respBody := ''Hi '' @ u\<rparr>)"
    by (simp add: dispatch_login [OF assms(1,2), where nx = "\<lambda>c. (None, c)"]
        login_handler_def request_AcquireCtx assms(5) SendString_def)
  then have run1: "Test (app env) q1 = (AcquireCtx q1)\<lparr>respBody := ''Hi '' @ u\<rparr>"
    by (rule Test_None)
  have "app_next (stack (app env)) (AcquireCtx q2)
        = (None, (AcquireCtx q2)\<lparr>respBody := ''Hi '' @ u\<rparr>)"
    by (simp add: dispatch_login [OF assms(3,4), where nx = "\<lambda>c. (None, c)"]
        login_handler_def request_AcquireCtx assms(6) SendString_def)
  then have run2: "Test (app env) q2 = (AcquireCtx q2)\<lparr>respBody := ''Hi '' @ u\<rparr>"
    by (rule Test_None)
  show ?thesis
    by (simp add: run1 run2 AcquireCtx_def StatusOK_def)
qed

theorem login_response_ignores_password_witness:
  "json_Unmarshal sample_env (login_body ''rahasia'')
     = Inr \<lparr>LoginReq.Username = ''Eric'', LoginReq.Password = ''rahasia''\<rparr>
   \<and> json_Unmarshal sample_env (login_body ''secret'')
     = Inr \<lparr>LoginReq.Username = ''Eric'', LoginReq.Password = ''secret''\<rparr>
   \<and> statusCode (Test (app sample_env) (NewRequest ''POST'' ''/login'' (login_body ''rahasia'')))
     = 200
   \<and> respBody (Test (app sample_env) (NewRequest ''POST'' ''/login'' (login_body ''rahasia'')))
     = ''Hi Eric''
   \<and> respBody (Test (app sample_env) (NewRequest ''POST'' ''/login'' (login_body ''secret'')))
     = ''Hi Eric''"
  using login_response_ignores_password
      [of "NewRequest ''POST'' ''/login'' (login_body ''rahasia'')"
          "NewRequest ''POST'' ''/login'' (login_body ''secret'')"
          sample_env "''Eric''" "''rahasia''" "''secret''"]
  by (simp add: request_NewRequest sample_env_def login_body_def)

subsection \<open>Upload\<close>

text \<open>
  Claim C10. The \<^verbatim>\<open>POST /upload\<close> handler responds \<^verbatim>\<open>Upload Success\<close> with status 200
  if and only if both retrieving the multipart form file named \<^verbatim>\<open>file\<close> and saving it
  under \<^verbatim>\<open>./target/\<close> and its file name succeed. If either step fails, the handler
  returns that error unchanged and writes nothing to the response, so the failure goes to
  the configured error handler (status 500, body \<^verbatim>\<open>"Error : "\<close> and the error's message).
\<close>

theorem upload_success_iff_both_steps:
  "(fst (upload_handler env nx c) = None)
     = (\<exists>file. FormFile env (request c) ''file'' = Inr file
          \<and> SaveFile env file (''./target/'' @ Filename file) = None)
   \<and> (fst (upload_handler env nx c) = None \<longrightarrow>
        upload_handler env nx c = (None, c\<lparr>respBody := ''Upload Success''\<rparr>))
   \<and> (FormFile env (request c) ''file'' = Inl err \<longrightarrow>
        upload_handler env nx c = (Some err, c))
   \<and> (FormFile env (request c) ''file'' = Inr file
        \<and> SaveFile env file (''./target/'' @ Filename file) = Some err \<longrightarrow>
        upload_handler env nx c = (Some err, c))
   \<and> (Method q = ''POST'' \<and> Path q = ''/upload'' \<longrightarrow>
        (statusCode (Test (app env) q) = 200 \<and> respBody (Test (app env) q) = ''Upload Success'')
          = (\<exists>file. FormFile env q ''file'' = Inr file
               \<and> SaveFile env file (''./target/'' @ Filename file) = None))
   \<and> (Method q = ''POST'' \<and> Path q = ''/upload''
        \<and> fst (upload_handler env nx (AcquireCtx q)) = Some err \<longrightarrow>
        statusCode (Test (app env) q) = 500
        \<and> respBody (Test (app env) q) = ''Error : '' @ Error err)"
proof (intro conjI impI)
  show "(fst (upload_handler env nx c) = None)
     = (\<exists>file. FormFile env (request c) ''file'' = Inr file
          \<and> SaveFile env file (''./target/'' @ Filename file) = None)"
    by (auto simp add: upload_handler_def SendString_def split: sum.splits option.splits)
next
  assume "fst (upload_handler env nx c) = None"
  then show "upload_handler env nx c = (None, c\<lparr>respBody := ''Upload Success''\<rparr>)"
    by (auto simp add: upload_handler_def SendString_def split: sum.splits option.splits)
next
  assume "FormFile env (request c) ''file'' = Inl err"
  then show "upload_handler env nx c = (Some err, c)"
    by (simp add: upload_handler_def)
next
  assume "FormFile env (request c) ''file'' = Inr file
        \<and> SaveFile env file (''./target/'' @ Filename file) = Some err"
  then show "upload_handler env nx c = (Some err, c)"
    by (simp add: upload_handler_def)
next
  assume a: "Method q = ''POST'' \<and> Path q = ''/upload''"
  then have d: "app_next (stack (app env)) (AcquireCtx q)
                = upload_handler env (\<lambda>c. (None, c)) (AcquireCtx q)"
    by (simp add: dispatch_upload)
  show "(statusCode (Test (app env) q) = 200 \<and> respBody (Test (app env) q) = ''Upload Success'')
          = (\<exists>file. FormFile env q ''file'' = Inr file
               \<and> SaveFile env file (''./target/'' @ Filename file) = None)"
  proof (cases "FormFile env q ''file''")
    case (Inl e)
    then have "app_next (stack (app env)) (AcquireCtx q) = (Some e, AcquireCtx q)"
      by (simp add: d upload_handler_def request_AcquireCtx)
    then have "statusCode (Test (app env) q) = 500"
      by (simp add: Test_Some)
    with Inl show ?thesis by simp
  next
    case (Inr fh)
    show ?thesis
    proof (cases "SaveFile env fh (''./target/'' @ Filename fh)")
      case None
      with Inr have "app_next (stack (app env)) (AcquireCtx q)
                     = (None, (AcquireCtx q)\<lparr>respBody := ''Upload Success''\<rparr>)"
        by (simp add: d upload_handler_def request_AcquireCtx SendString_def)
      then have "Test (app env) q = (AcquireCtx q)\<lparr>respBody := ''Upload Success''\<rparr>"
        by (rule Test_None)
      with Inr None show ?thesis
        by (simp add: AcquireCtx_def StatusOK_def)
    next
      case (Some e)
      with Inr have "app_next (stack (app env)) (AcquireCtx q) = (Some e, AcquireCtx q)"
        by (simp add: d upload_handler_def request_AcquireCtx)
      then have "statusCode (Test (app env) q) = 500"
        by (simp add: Test_Some)
      with Inr Some show ?thesis by simp
    qed
  qed
next
  assume a: "Method q = ''POST'' \<and> Path q = ''/upload''
        \<and> fst (upload_handler env nx (AcquireCtx q)) = Some err"
  then have d: "app_next (stack (app env)) (AcquireCtx q)
                = upload_handler env nx (AcquireCtx q)"
    by (simp add: dispatch_upload)
  obtain c' where r: "app_next (stack (app env)) (AcquireCtx q) = (Some err, c')"
    using a d by (cases "upload_handler env nx (AcquireCtx q)") simp
  show "statusCode (Test (app env) q) = 500"
    by (simp add: Test_Some [OF r])
  show "respBody (Test (app env) q) = ''Error : '' @ Error err"
    by (simp add: Test_Some [OF r])
qed

theorem upload_success_iff_both_steps_witness:
  "FormFile sample_env ((NewRequest ''POST'' ''/upload'' ''contoh.txt'')
       \<lparr>Header := [(''Content-Type'', ''multipart/form-data; boundary=x'')]\<rparr>) ''file''
     = Inr \<lparr>Filename = ''contoh.txt''\<rparr>
   \<and> SaveFile sample_env \<lparr>Filename = ''contoh.txt''\<rparr> (''./target/'' @ ''contoh.txt'') = None
   \<and> statusCode (Test (app sample_env) ((NewRequest ''POST'' ''/upload'' ''contoh.txt'')
       \<lparr>Header := [(''Content-Type'', ''multipart/form-data; boundary=x'')]\<rparr>)) = 200
   \<and> respBody (Test (app sample_env) ((NewRequest ''POST'' ''/upload'' ''contoh.txt'')
       \<lparr>Header := [(''Content-Type'', ''multipart/form-data; boundary=x'')]\<rparr>))
     = ''Upload Success''
   \<and> FormFile sample_env (NewRequest ''POST'' ''/upload'' []) ''file''
     = Inl (ErrorString ''there is no uploaded file associated with the given key'')
   \<and> statusCode (Test (app sample_env) (NewRequest ''POST'' ''/upload'' [])) = 500
   \<and> respBody (Test (app sample_env) (NewRequest ''POST'' ''/upload'' []))
     = ''Error : there is no uploaded file associated with the given key''
   \<and> SaveFile sample_env \<lparr>Filename = ''other.txt''\<rparr> (''./target/'' @ ''other.txt'')
     = Some (ErrorString ''permission denied'')
   \<and> statusCode (Test (app sample_env) ((NewRequest ''POST'' ''/upload'' ''other.txt'')
       \<lparr>Header := [(''Content-Type'', ''multipart/form-data; boundary=x'')]\<rparr>)) = 500
   \<and> respBody (Test (app sample_env) ((NewRequest ''POST'' ''/upload'' ''other.txt'')
       \<lparr>Header := [(''Content-Type'', ''multipart/form-data; boundary=x'')]\<rparr>))
     = ''Error : permission denied''"
proof -
  let ?ok = "(NewRequest ''POST'' ''/upload'' ''contoh.txt'')
       \<lparr>Header := [(''Content-Type'', ''multipart/form-data; boundary=x'')]\<rparr>"
  let ?nofile = "NewRequest ''POST'' ''/upload'' []"
  let ?nosave = "(NewRequest ''POST'' ''/upload'' ''other.txt'')
       \<lparr>Header := [(''Content-Type'', ''multipart/form-data; boundary=x'')]\<rparr>"
  have ff: "FormFile sample_env ?ok ''file'' = Inr \<lparr>Filename = ''contoh.txt''\<rparr>"
    "FormFile sample_env ?nofile ''file''
       = Inl (ErrorString ''there is no uploaded file associated with the given key'')"
    "FormFile sample_env ?nosave ''file'' = Inr \<lparr>Filename = ''other.txt''\<rparr>"
    by (simp_all add: sample_env_def request_NewRequest HasPrefix_def Peek_def)
  have sf: "SaveFile sample_env \<lparr>Filename = ''contoh.txt''\<rparr> (''./target/'' @ ''contoh.txt'')
              = None"
    "SaveFile sample_env \<lparr>Filename = ''other.txt''\<rparr> (''./target/'' @ ''other.txt'')
              = Some (ErrorString ''permission denied'')"
    by (simp_all add: sample_env_def)
  have h: "fst (upload_handler sample_env (\<lambda>c. (None, c)) (AcquireCtx ?nofile))
             = Some (ErrorString ''there is no uploaded file associated with the given key'')"
    "fst (upload_handler sample_env (\<lambda>c. (None, c)) (AcquireCtx ?nosave))
             = Some (ErrorString ''permission denied'')"
    using ff sf by (simp_all add: upload_handler_def request_AcquireCtx)
  have ok: "statusCode (Test (app sample_env) ?ok) = 200
            \<and> respBody (Test (app sample_env) ?ok) = ''Upload Success''"
    using upload_success_iff_both_steps [where env = sample_env and q = ?ok] ff(1) sf(1)
    by (simp add: request_NewRequest)
  have nofile: "statusCode (Test (app sample_env) ?nofile) = 500
     \<and> respBody (Test (app sample_env) ?nofile)
         = ''Error : there is no uploaded file associated with the given key''"
    using upload_success_iff_both_steps
      [where env = sample_env and q = ?nofile and nx = "\<lambda>c. (None, c)"
         and err = "ErrorString ''there is no uploaded file associated with the given key''"]
      h(1)
    by (simp add: request_NewRequest)
  have nosave: "statusCode (Test (app sample_env) ?nosave) = 500
     \<and> respBody (Test (app sample_env) ?nosave) = ''Error : permission denied''"
    using upload_success_iff_both_steps
      [where env = sample_env and q = ?nosave and nx = "\<lambda>c. (None, c)"
         and err = "ErrorString ''permission denied''"]
      h(2)
    by (simp add: request_NewRequest)
  show ?thesis
    using ff sf ok nofile nosave by simp
qed


end
